theory Spec2Isabelle
  imports Main "HOL-Library.Word" "HOL-Library.Sublist"
begin

section \<open>JavaScript values\<close>

text \<open>
  A JavaScript string is a sequence of 16-bit code units. The string literals of
  \<^verbatim>\<open>students.js\<close> contain letters of Latin-1 only (the umlauts of the surnames are
  the single code units \<open>0xE4\<close>, \<open>0xF6\<close>, \<open>0xFC\<close>), so \<open>str\<close> turns the text of a
  literal, one \<open>char\<close> per code unit, into the string it denotes.
\<close>

type_synonym code_unit = "16 word"

type_synonym jsstring = "code_unit list"

definition str :: "string \<Rightarrow> jsstring" where
  "str s = map of_char s"

text \<open>
  The object shape of one element of the \<^verbatim>\<open>students\<close> array: seven string
  properties, in the order of the source.
\<close>

record student =
  ID :: jsstring
  firstname :: jsstring
  lastname :: jsstring
  gender :: jsstring
  birthdate :: jsstring
  studysubject :: jsstring
  city :: jsstring

text \<open>
  The values that reach the second parameter of the filter functions (a route or query
  parameter: a string, or \<^verbatim>\<open>undefined\<close> when it is missing) and that
  \<^verbatim>\<open>find\<close> and \<^verbatim>\<open>findById\<close> return (a record, \<^verbatim>\<open>undefined\<close>,
  \<^verbatim>\<open>null\<close>).
\<close>

datatype jsval =
    JUndefined
  | JNull
  | JString jsstring
  | JObject student

datatype error = TypeError

subsection \<open>\<^verbatim>\<open>String.prototype.toLowerCase\<close>\<close>

text \<open>
  \<^verbatim>\<open>toLowerCase\<close> applies the Unicode default lower-case mapping. On a string whose
  code units all lie in Basic Latin or Latin-1 Supplement the mapping works unit by unit:
  \<open>A\<close>..\<open>Z\<close> and \<open>0xC0\<close>..\<open>0xDE\<close> without the multiplication sign \<open>0xD7\<close> move up by
  \<open>0x20\<close>, every other unit stays. Beyond Latin-1 the mapping comes from the character
  tables of the runtime, which are no part of this repository: they are the parameter
  \<open>ucd\<close> of everything below, and every theorem holds for every such table.
\<close>

definition is_upper_latin1 :: "code_unit \<Rightarrow> bool" where
  "is_upper_latin1 u \<longleftrightarrow>
     (0x41 \<le> u \<and> u \<le> 0x5A) \<or> (0xC0 \<le> u \<and> u \<le> 0xDE \<and> u \<noteq> 0xD7)"

definition lower_unit :: "code_unit \<Rightarrow> code_unit" where
  "lower_unit u = (if is_upper_latin1 u then u + 0x20 else u)"

definition toLowerCase :: "(jsstring \<Rightarrow> jsstring) \<Rightarrow> jsstring \<Rightarrow> jsstring" where
  "toLowerCase ucd s =
     (if list_all (\<lambda>u. u \<le> 0xFF) s then map lower_unit s else ucd s)"

text \<open>
  The same mapping on the characters of a literal; \<open>toLowerCase_str\<close> below shows
  that it is what \<open>toLowerCase\<close> does to \<open>str s\<close>.
\<close>

definition lower_char :: "char \<Rightarrow> char" where
  "lower_char c =
     (let n = of_char c :: nat in
      if (0x41 \<le> n \<and> n \<le> 0x5A) \<or> (0xC0 \<le> n \<and> n \<le> 0xDE \<and> n \<noteq> 0xD7)
      then char_of (n + 0x20) else c)"

text \<open>
  The method call \<^verbatim>\<open>v.toLowerCase()\<close> on an arbitrary value: reading the property
  of \<^verbatim>\<open>undefined\<close> or \<^verbatim>\<open>null\<close> throws a TypeError, and so does calling it on
  a record, where the property is \<^verbatim>\<open>undefined\<close>.
\<close>

fun call_toLowerCase :: "(jsstring \<Rightarrow> jsstring) \<Rightarrow> jsval \<Rightarrow> error + jsstring" where
  "call_toLowerCase ucd (JString s) = Inr (toLowerCase ucd s)"
| "call_toLowerCase ucd v = Inl TypeError"

text \<open>
  \<^verbatim>\<open>field.toLowerCase() === arg.toLowerCase()\<close> with a string \<open>field\<close>: the left
  operand is evaluated first and cannot throw, the right one throws when \<open>arg\<close> is no
  string; two strings are strictly equal when their code units are.
\<close>

definition lower_equals :: "(jsstring \<Rightarrow> jsstring) \<Rightarrow> jsstring \<Rightarrow> jsval \<Rightarrow> error + bool" where
  "lower_equals ucd field arg =
     (let l = toLowerCase ucd field in
      case call_toLowerCase ucd arg of
        Inl e \<Rightarrow> Inl e
      | Inr r \<Rightarrow> Inr (l = r))"

text \<open>\<^verbatim>\<open>field === v\<close> with a string \<open>field\<close>: false unless \<open>v\<close> is the same string.\<close>

fun strict_equals :: "jsstring \<Rightarrow> jsval \<Rightarrow> bool" where
  "strict_equals field (JString s) = (field = s)"
| "strict_equals field v = False"

text \<open>Truthiness, and \<^verbatim>\<open>a || b\<close> on two values already computed.\<close>

fun ToBoolean :: "jsval \<Rightarrow> bool" where
  "ToBoolean JUndefined = False"
| "ToBoolean JNull = False"
| "ToBoolean (JString s) = (s \<noteq> [])"
| "ToBoolean (JObject r) = True"

definition logical_or :: "jsval \<Rightarrow> jsval \<Rightarrow> jsval" where
  "logical_or a b = (if ToBoolean a then a else b)"

subsection \<open>\<^verbatim>\<open>Array.prototype.filter\<close> and \<^verbatim>\<open>Array.prototype.find\<close>\<close>

text \<open>
  Both built-ins walk the array by index from \<open>0\<close> to its length. \<^verbatim>\<open>filter\<close>
  appends every element the callback selects to a fresh array; \<^verbatim>\<open>find\<close> returns the
  first element the predicate accepts and \<^verbatim>\<open>undefined\<close> after the last index. An
  exception of the callback ends the walk and leaves the built-in.
\<close>

function filter_from ::
  "('a \<Rightarrow> error + bool) \<Rightarrow> 'a list \<Rightarrow> nat \<Rightarrow> 'a list \<Rightarrow> error + 'a list" where
  "filter_from callbackfn arr k acc =
     (if k < length arr then
        (case callbackfn (arr ! k) of
           Inl e \<Rightarrow> Inl e
         | Inr selected \<Rightarrow>
             filter_from callbackfn arr (k + 1) (if selected then acc @ [arr ! k] else acc))
      else Inr acc)"
  by pat_completeness auto
termination
  by (relation "measure (\<lambda>(callbackfn, arr, k, acc). length arr - k)") auto

definition array_filter :: "('a \<Rightarrow> error + bool) \<Rightarrow> 'a list \<Rightarrow> error + 'a list" where
  "array_filter callbackfn arr = filter_from callbackfn arr 0 []"

function find_from ::
  "(student \<Rightarrow> error + bool) \<Rightarrow> student list \<Rightarrow> nat \<Rightarrow> error + jsval" where
  "find_from predicate arr k =
     (if k < length arr then
        (case predicate (arr ! k) of
           Inl e \<Rightarrow> Inl e
         | Inr testResult \<Rightarrow>
             if testResult then Inr (JObject (arr ! k)) else find_from predicate arr (k + 1))
      else Inr JUndefined)"
  by pat_completeness auto
termination
  by (relation "measure (\<lambda>(predicate, arr, k). length arr - k)") auto

definition array_find :: "(student \<Rightarrow> error + bool) \<Rightarrow> student list \<Rightarrow> error + jsval" where
  "array_find predicate arr = find_from predicate arr 0"

text \<open>Sequencing two calls, the second on the result of the first; an exception leaves both.\<close>

definition and_then :: "error + 'a \<Rightarrow> ('a \<Rightarrow> error + 'b) \<Rightarrow> error + 'b" where
  "and_then r f = (case r of Inl e \<Rightarrow> Inl e | Inr x \<Rightarrow> f x)"

section \<open>The module \<^verbatim>\<open>utils/students.js\<close>\<close>

subsection \<open>The store\<close>

definition students :: "student list" where
  "students = [
    \<lparr>ID = str ''S001'', firstname = str ''Anna'', lastname = str ''Schmidt'',
      gender = str ''female'', birthdate = str ''1998-03-15'',
      studysubject = str ''Physics'', city = str ''Munich''\<rparr>,
    \<lparr>ID = str ''S002'', firstname = str ''Ben'', lastname = str (''M'' @ CHR 0xFC # ''ller''),
      gender = str ''male'', birthdate = str ''1997-06-22'',
      studysubject = str ''Physics'', city = str ''Vienna''\<rparr>,
    \<lparr>ID = str ''S003'', firstname = str ''Clara'', lastname = str ''Weber'',
      gender = str ''female'', birthdate = str ''1999-01-10'',
      studysubject = str ''Physics'', city = str ''Prague''\<rparr>,
    \<lparr>ID = str ''S004'', firstname = str ''David'', lastname = str ''Fischer'',
      gender = str ''male'', birthdate = str ''1996-11-05'',
      studysubject = str ''Physics'', city = str ''Madrid''\<rparr>,
    \<lparr>ID = str ''S005'', firstname = str ''Emma'', lastname = str ''Meyer'',
      gender = str ''female'', birthdate = str ''1998-07-19'',
      studysubject = str ''Physics'', city = str ''Paris''\<rparr>,
    \<lparr>ID = str ''S006'', firstname = str ''Finn'', lastname = str ''Schulz'',
      gender = str ''male'', birthdate = str ''1997-04-12'',
      studysubject = str ''Physics'', city = str ''Rome''\<rparr>,
    \<lparr>ID = str ''S007'', firstname = str ''Greta'', lastname = str ''Koch'',
      gender = str ''female'', birthdate = str ''1999-09-25'',
      studysubject = str ''Physics'', city = str ''Munich''\<rparr>,
    \<lparr>ID = str ''S008'', firstname = str ''Hannes'', lastname = str ''Bauer'',
      gender = str ''male'', birthdate = str ''1996-12-30'',
      studysubject = str ''Physics'', city = str ''Vienna''\<rparr>,
    \<lparr>ID = str ''S009'', firstname = str ''Ida'', lastname = str ''Richter'',
      gender = str ''female'', birthdate = str ''1998-02-08'',
      studysubject = str ''Physics'', city = str ''Prague''\<rparr>,
    \<lparr>ID = str ''S010'', firstname = str ''Jonas'', lastname = str (''Sch'' @ CHR 0xE4 # ''fer''),
      gender = str ''male'', birthdate = str ''1997-08-14'',
      studysubject = str ''Physics'', city = str ''Madrid''\<rparr>,
    \<lparr>ID = str ''S011'', firstname = str ''Klara'', lastname = str ''Wagner'',
      gender = str ''female'', birthdate = str ''1999-05-03'',
      studysubject = str ''Mathematics'', city = str ''Paris''\<rparr>,
    \<lparr>ID = str ''S012'', firstname = str ''Lars'', lastname = str ''Becker'',
      gender = str ''male'', birthdate = str ''1996-10-17'',
      studysubject = str ''Mathematics'', city = str ''Rome''\<rparr>,
    \<lparr>ID = str ''S013'', firstname = str ''Mia'', lastname = str ''Hofmann'',
      gender = str ''female'', birthdate = str ''1998-04-29'',
      studysubject = str ''Mathematics'', city = str ''Munich''\<rparr>,
    \<lparr>ID = str ''S014'', firstname = str ''Noah'', lastname = str (''Schr'' @ CHR 0xF6 # ''der''),
      gender = str ''male'', birthdate = str ''1997-03-11'',
      studysubject = str ''Mathematics'', city = str ''Vienna''\<rparr>,
    \<lparr>ID = str ''S015'', firstname = str ''Olivia'', lastname = str ''Neumann'',
      gender = str ''female'', birthdate = str ''1999-06-26'',
      studysubject = str ''Mathematics'', city = str ''Prague''\<rparr>,
    \<lparr>ID = str ''S016'', firstname = str ''Paul'', lastname = str ''Schwarz'',
      gender = str ''male'', birthdate = str ''1996-09-08'',
      studysubject = str ''Mathematics'', city = str ''Madrid''\<rparr>,
    \<lparr>ID = str ''S017'', firstname = str ''Quinn'', lastname = str ''Zimmermann'',
      gender = str ''female'', birthdate = str ''1998-01-14'',
      studysubject = str ''Mathematics'', city = str ''Paris''\<rparr>,
    \<lparr>ID = str ''S018'', firstname = str ''Ruben'', lastname = str ''Krause'',
      gender = str ''male'', birthdate = str ''1997-07-20'',
      studysubject = str ''Mathematics'', city = str ''Rome''\<rparr>,
    \<lparr>ID = str ''S019'', firstname = str ''Sophie'', lastname = str ''Schneider'',
      gender = str ''female'', birthdate = str ''1999-02-27'',
      studysubject = str ''Mathematics'', city = str ''Munich''\<rparr>,
    \<lparr>ID = str ''S020'', firstname = str ''Theo'', lastname = str ''Schubert'',
      gender = str ''male'', birthdate = str ''1996-12-03'',
      studysubject = str ''Mathematics'', city = str ''Vienna''\<rparr>,
    \<lparr>ID = str ''S021'', firstname = str ''Ursula'', lastname = str ''Fuchs'',
      gender = str ''female'', birthdate = str ''1998-08-16'',
      studysubject = str ''Computer Science'', city = str ''Prague''\<rparr>,
    \<lparr>ID = str ''S022'', firstname = str ''Viktor'', lastname = str ''Schreiber'',
      gender = str ''male'', birthdate = str ''1997-05-09'',
      studysubject = str ''Computer Science'', city = str ''Madrid''\<rparr>,
    \<lparr>ID = str ''S023'', firstname = str ''Wanda'', lastname = str ''Vogel'',
      gender = str ''female'', birthdate = str ''1999-03-22'',
      studysubject = str ''Computer Science'', city = str ''Paris''\<rparr>,
    \<lparr>ID = str ''S024'', firstname = str ''Xaver'', lastname = str ''Wolff'',
      gender = str ''male'', birthdate = str ''1996-11-28'',
      studysubject = str ''Computer Science'', city = str ''Rome''\<rparr>,
    \<lparr>ID = str ''S025'', firstname = str ''Yara'', lastname = str (''Schr'' @ CHR 0xF6 # ''ter''),
      gender = str ''female'', birthdate = str ''1998-06-04'',
      studysubject = str ''Computer Science'', city = str ''Munich''\<rparr>,
    \<lparr>ID = str ''S026'', firstname = str ''Zane'', lastname = str ''Fischer'',
      gender = str ''male'', birthdate = str ''1997-02-15'',
      studysubject = str ''Computer Science'', city = str ''Vienna''\<rparr>,
    \<lparr>ID = str ''S027'', firstname = str ''Alma'', lastname = str ''Mayer'',
      gender = str ''female'', birthdate = str ''1999-07-31'',
      studysubject = str ''Computer Science'', city = str ''Prague''\<rparr>,
    \<lparr>ID = str ''S028'', firstname = str ''Bruno'', lastname = str (''K'' @ CHR 0xF6 # ''nig''),
      gender = str ''male'', birthdate = str ''1996-10-23'',
      studysubject = str ''Computer Science'', city = str ''Madrid''\<rparr>,
    \<lparr>ID = str ''S029'', firstname = str ''Celine'', lastname = str ''Schulz'',
      gender = str ''female'', birthdate = str ''1998-09-12'',
      studysubject = str ''Computer Science'', city = str ''Paris''\<rparr>,
    \<lparr>ID = str ''S030'', firstname = str ''Dorian'', lastname = str ''Weber'',
      gender = str ''male'', birthdate = str ''1997-04-06'',
      studysubject = str ''Computer Science'', city = str ''Rome''\<rparr>,
    \<lparr>ID = str ''S031'', firstname = str ''Elisa'', lastname = str ''Bauer'',
      gender = str ''female'', birthdate = str ''1999-01-19'',
      studysubject = str ''Medicine'', city = str ''Munich''\<rparr>,
    \<lparr>ID = str ''S032'', firstname = str ''Felix'', lastname = str ''Richter'',
      gender = str ''male'', birthdate = str ''1996-08-02'',
      studysubject = str ''Medicine'', city = str ''Vienna''\<rparr>,
    \<lparr>ID = str ''S033'', firstname = str ''Gina'', lastname = str ''Kuhn'',
      gender = str ''female'', birthdate = str ''1998-03-27'',
      studysubject = str ''Medicine'', city = str ''Prague''\<rparr>,
    \<lparr>ID = str ''S034'', firstname = str ''Henry'', lastname = str (''Sch'' @ CHR 0xE4 # ''fer''),
      gender = str ''male'', birthdate = str ''1997-06-13'',
      studysubject = str ''Medicine'', city = str ''Madrid''\<rparr>,
    \<lparr>ID = str ''S035'', firstname = str ''Iris'', lastname = str ''Wagner'',
      gender = str ''female'', birthdate = str ''1999-05-08'',
      studysubject = str ''Medicine'', city = str ''Paris''\<rparr>,
    \<lparr>ID = str ''S036'', firstname = str ''Julian'', lastname = str ''Becker'',
      gender = str ''male'', birthdate = str ''1996-12-15'',
      studysubject = str ''Medicine'', city = str ''Rome''\<rparr>,
    \<lparr>ID = str ''S037'', firstname = str ''Kaja'', lastname = str ''Hofmann'',
      gender = str ''female'', birthdate = str ''1998-02-21'',
      studysubject = str ''Medicine'', city = str ''Munich''\<rparr>,
    \<lparr>ID = str ''S038'', firstname = str ''Leon'', lastname = str (''Schr'' @ CHR 0xF6 # ''der''),
      gender = str ''male'', birthdate = str ''1997-09-04'',
      studysubject = str ''Medicine'', city = str ''Vienna''\<rparr>,
    \<lparr>ID = str ''S039'', firstname = str ''Mira'', lastname = str ''Neumann'',
      gender = str ''female'', birthdate = str ''1999-04-17'',
      studysubject = str ''Medicine'', city = str ''Prague''\<rparr>,
    \<lparr>ID = str ''S040'', firstname = str ''Nico'', lastname = str ''Schwarz'',
      gender = str ''male'', birthdate = str ''1996-07-29'',
      studysubject = str ''Medicine'', city = str ''Madrid''\<rparr>
  ]"

subsection \<open>The filter and lookup functions\<close>

text \<open>
  The parameters \<^verbatim>\<open>students\<close>, \<^verbatim>\<open>city\<close>, \<^verbatim>\<open>gender\<close> of the source are
  \<open>records\<close>, \<open>city'\<close>, \<open>gender'\<close> here, the plain names being the store and the
  fields.
\<close>

definition filterByCity ::
  "(jsstring \<Rightarrow> jsstring) \<Rightarrow> student list \<Rightarrow> jsval \<Rightarrow> error + student list" where
  "filterByCity ucd records city' =
     array_filter (\<lambda>student. lower_equals ucd (city student) city') records"

definition filterBySubject ::
  "(jsstring \<Rightarrow> jsstring) \<Rightarrow> student list \<Rightarrow> jsval \<Rightarrow> error + student list" where
  "filterBySubject ucd records subject =
     array_filter (\<lambda>student. lower_equals ucd (studysubject student) subject) records"

definition filterByGender ::
  "(jsstring \<Rightarrow> jsstring) \<Rightarrow> student list \<Rightarrow> jsval \<Rightarrow> error + student list" where
  "filterByGender ucd records gender' =
     array_filter (\<lambda>student. lower_equals ucd (gender student) gender') records"

definition findById :: "student list \<Rightarrow> jsval \<Rightarrow> error + jsval" where
  "findById records id' =
     (case array_find (\<lambda>student. Inr (strict_equals (ID student) id')) records of
        Inl e \<Rightarrow> Inl e
      | Inr found \<Rightarrow> Inr (logical_or found JNull))"

text \<open>
  The callback of \<^verbatim>\<open>filterByName\<close> is \<^verbatim>\<open>a || b\<close> on two comparisons: the second
  is evaluated only when the first is false.
\<close>

definition name_matches :: "(jsstring \<Rightarrow> jsstring) \<Rightarrow> jsval \<Rightarrow> student \<Rightarrow> error + bool" where
  "name_matches ucd name student =
     (case lower_equals ucd (firstname student) name of
        Inl e \<Rightarrow> Inl e
      | Inr first \<Rightarrow> if first then Inr True else lower_equals ucd (lastname student) name)"

definition filterByName ::
  "(jsstring \<Rightarrow> jsstring) \<Rightarrow> student list \<Rightarrow> jsval \<Rightarrow> error + student list" where
  "filterByName ucd records name = array_filter (name_matches ucd name) records"

section \<open>The page \<^verbatim>\<open>pages/students/gscatchallssg/[[...gendersubject]].js\<close>\<close>

text \<open>
  \<^verbatim>\<open>getStaticProps\<close> receives the optional catch-all parameter: nothing on the root
  path, the array of path segments otherwise. Reading an index beyond the array gives
  \<^verbatim>\<open>undefined\<close>. A filter is applied only when its segment is truthy (a non-empty
  string), the gender filter first and the subject filter on its result. The properties
  \<^verbatim>\<open>students\<close>, \<^verbatim>\<open>gender\<close>, \<^verbatim>\<open>subject\<close> of the returned \<^verbatim>\<open>props\<close> carry
  the suffix \<open>_prop\<close>.
\<close>

record page_props =
  students_prop :: "student list"
  gender_prop :: jsval
  subject_prop :: jsval

definition element :: "jsstring list \<Rightarrow> nat \<Rightarrow> jsval" where
  "element arr k = (if k < length arr then JString (arr ! k) else JUndefined)"

definition getStaticProps ::
  "(jsstring \<Rightarrow> jsstring) \<Rightarrow> jsstring list option \<Rightarrow> error + page_props" where
  "getStaticProps ucd param =
     (let gendersubject = (case param of None \<Rightarrow> [] | Some arr \<Rightarrow> arr);
          gender' = element gendersubject 0;
          subject = element gendersubject 1
      in and_then
           (if ToBoolean gender' then filterByGender ucd students gender' else Inr students)
           (\<lambda>filteredStudents.
              and_then
                (if ToBoolean subject then filterBySubject ucd filteredStudents subject
                 else Inr filteredStudents)
                (\<lambda>filteredStudents.
                   Inr \<lparr>students_prop = filteredStudents,
                        gender_prop = logical_or gender' (JString (str ''All'')),
                        subject_prop = logical_or subject (JString (str ''All''))\<rparr>)))"

section \<open>The built-ins on callbacks that do not throw\<close>

text \<open>
  When the callback returns a boolean on every element, the index walk of
  \<^verbatim>\<open>filter\<close> computes the list function \<open>filter\<close> and the walk of
  \<^verbatim>\<open>find\<close> computes \<open>List.find\<close>.
\<close>

lemma filter_from_total:
  assumes "\<And>x. x \<in> set arr \<Longrightarrow> f x = Inr (P x)"
  shows "filter_from f arr k acc = Inr (acc @ filter P (drop k arr))"
  using assms
proof (induction f arr k acc rule: filter_from.induct)
  case (1 f arr k acc)
  show ?case
  proof (cases "k < length arr")
    case True
    then have fk: "f (arr ! k) = Inr (P (arr ! k))"
      using "1.prems" by simp
    have step: "drop k arr = arr ! k # drop (k + 1) arr"
      using True by (simp add: Cons_nth_drop_Suc)
    have "filter_from f arr k acc =
          filter_from f arr (k + 1) (if P (arr ! k) then acc @ [arr ! k] else acc)"
      using True fk by (subst filter_from.simps) simp
    also have "\<dots> = Inr ((if P (arr ! k) then acc @ [arr ! k] else acc)
                          @ filter P (drop (k + 1) arr))"
      using "1.IH" [OF True fk] "1.prems" by simp
    also have "\<dots> = Inr (acc @ filter P (drop k arr))"
      by (simp add: step)
    finally show ?thesis .
  next
    case False
    then show ?thesis by (subst filter_from.simps) simp
  qed
qed

lemma array_filter_total:
  assumes "\<And>x. x \<in> set arr \<Longrightarrow> f x = Inr (P x)"
  shows "array_filter f arr = Inr (filter P arr)"
  using filter_from_total [of arr f P 0 "[]"] assms by (simp add: array_filter_def)

lemma array_filter_raises:
  assumes "f (hd arr) = Inl e" and "arr \<noteq> []"
  shows "array_filter f arr = Inl e"
  using assms unfolding array_filter_def
  by (subst filter_from.simps) (simp add: hd_conv_nth)

lemma array_filter_all_raise:
  assumes "\<And>x. f x = Inl e"
  shows "array_filter f arr = (if arr = [] then Inr [] else Inl e)"
  unfolding array_filter_def by (subst filter_from.simps) (simp add: assms)

lemma find_from_total:
  assumes "\<And>x. x \<in> set arr \<Longrightarrow> f x = Inr (P x)"
  shows "find_from f arr k =
         Inr (case List.find P (drop k arr) of None \<Rightarrow> JUndefined | Some r \<Rightarrow> JObject r)"
  using assms
proof (induction f arr k rule: find_from.induct)
  case (1 f arr k)
  show ?case
  proof (cases "k < length arr")
    case inside: True
    then have fk: "f (arr ! k) = Inr (P (arr ! k))"
      using "1.prems" by simp
    have step: "drop k arr = arr ! k # drop (k + 1) arr"
      using inside by (simp add: Cons_nth_drop_Suc)
    show ?thesis
    proof (cases "P (arr ! k)")
      case True
      with inside fk show ?thesis
        by (subst find_from.simps) (simp add: step)
    next
      case False
      have "find_from f arr k = find_from f arr (k + 1)"
        using inside fk False by (subst find_from.simps) simp
      also have "\<dots> = Inr (case List.find P (drop (k + 1) arr) of
                              None \<Rightarrow> JUndefined | Some r \<Rightarrow> JObject r)"
        using "1.IH" [OF inside fk _ "1.prems"] False by simp
      finally show ?thesis using False by (simp add: step)
    qed
  next
    case False
    then show ?thesis by (subst find_from.simps) simp
  qed
qed

lemma array_find_total:
  assumes "\<And>x. x \<in> set arr \<Longrightarrow> f x = Inr (P x)"
  shows "array_find f arr =
         Inr (case List.find P arr of None \<Rightarrow> JUndefined | Some r \<Rightarrow> JObject r)"
  using find_from_total [of arr f P 0] assms by (simp add: array_find_def)

lemma lower_equals_string:
  "lower_equals ucd field (JString s) = Inr (toLowerCase ucd field = toLowerCase ucd s)"
  by (simp add: lower_equals_def)

section \<open>Lower case on the literals of the source\<close>

lemma unat_of_char: "unat (of_char c :: code_unit) = of_char c"
proof -
  have "(of_char c :: code_unit) = of_nat (of_char c)"
    by (simp add: of_nat_of_char)
  moreover have "(of_char c :: nat) < 2 ^ 16"
  proof -
    have "(of_char c :: nat) < 256" by (rule nat_of_char_less_256)
    also have "(256 :: nat) < 2 ^ 16" by simp
    finally show ?thesis .
  qed
  ultimately show ?thesis
    by (simp add: of_nat_inverse)
qed

lemma is_upper_latin1_of_char:
  "is_upper_latin1 (of_char c) \<longleftrightarrow>
     (0x41 \<le> (of_char c :: nat) \<and> (of_char c :: nat) \<le> 0x5A) \<or>
     (0xC0 \<le> (of_char c :: nat) \<and> (of_char c :: nat) \<le> 0xDE \<and> (of_char c :: nat) \<noteq> 0xD7)"
proof -
  have neq: "(of_char c :: code_unit) \<noteq> 0xD7 \<longleftrightarrow> (of_char c :: nat) \<noteq> 0xD7"
    by (simp add: word_unat_eq_iff unat_of_char)
  show ?thesis
    unfolding is_upper_latin1_def neq
    by (simp add: word_le_nat_alt unat_of_char)
qed

lemma lower_unit_of_char: "lower_unit (of_char c) = of_char (lower_char c)"
proof (cases "is_upper_latin1 (of_char c)")
  case True
  then have up:
    "(0x41 \<le> (of_char c :: nat) \<and> (of_char c :: nat) \<le> 0x5A) \<or>
     (0xC0 \<le> (of_char c :: nat) \<and> (of_char c :: nat) \<le> 0xDE \<and> (of_char c :: nat) \<noteq> 0xD7)"
    by (simp only: is_upper_latin1_of_char)
  then have small: "(of_char c :: nat) + 0x20 < 256"
    by auto
  have "(of_char (lower_char c) :: code_unit) =
        of_nat (of_char (char_of ((of_char c :: nat) + 0x20)))"
    using up by (simp add: lower_char_def of_nat_of_char del: of_char_of)
  also have "\<dots> = of_nat ((of_char c :: nat) + 0x20)"
    using small by simp
  also have "\<dots> = of_char c + 0x20"
    by (simp add: of_nat_of_char)
  finally show ?thesis
    using True by (simp add: lower_unit_def)
next
  case False
  then have "lower_char c = c"
    by (simp only: is_upper_latin1_of_char lower_char_def Let_def if_False)
  with False show ?thesis
    by (simp add: lower_unit_def)
qed

lemma str_latin1: "list_all (\<lambda>u. u \<le> 0xFF) (str s)"
proof -
  have "(of_char c :: code_unit) \<le> 0xFF" for c
    using nat_of_char_less_256 [of c]
    by (simp add: word_le_nat_alt unat_of_char del: nat_of_char_less_256)
  then show ?thesis
    by (simp add: str_def list_all_iff)
qed

lemma toLowerCase_str: "toLowerCase ucd (str s) = str (map lower_char s)"
  using str_latin1 [of s] by (simp add: toLowerCase_def) (simp add: str_def lower_unit_of_char)

lemma str_inject: "str a = str b \<longleftrightarrow> a = b"
proof -
  have "inj (of_char :: char \<Rightarrow> code_unit)"
  proof (rule injI)
    fix x y :: char
    assume "(of_char x :: code_unit) = of_char y"
    then have "unat (of_char x :: code_unit) = unat (of_char y :: code_unit)" by simp
    then have "(of_char x :: nat) = of_char y" by (simp only: unat_of_char)
    then show "x = y" by simp
  qed
  then show ?thesis by (simp add: str_def inj_map_eq_map)
qed

lemma char_eq_char_of: "c = char_of (n :: nat) \<longleftrightarrow> take_bit 8 n = of_char c"
  using char_of_eq_iff [of n c] by auto

lemmas lower_eval = toLowerCase_str str_inject lower_char_def char_of_eq_iff char_eq_char_of

section \<open>Walking the literal store\<close>

text \<open>
  Rules that decide one element at a time, so that a filter or a search over the forty
  records of the store is evaluated without carrying both branches of a conditional.
\<close>

lemma filter_keep: "P x \<Longrightarrow> filter P (x # xs) = x # filter P xs"
  by simp

lemma filter_drop: "\<not> P x \<Longrightarrow> filter P (x # xs) = filter P xs"
  by simp

lemma filter_cong_all: "list_all (\<lambda>x. P x = Q x) xs \<Longrightarrow> filter P xs = filter Q xs"
  by (induction xs) auto

lemma find_keep: "P x \<Longrightarrow> List.find P (x # xs) = Some x"
  by simp

lemma find_drop: "\<not> P x \<Longrightarrow> List.find P (x # xs) = List.find P xs"
  by simp

lemmas store_eval = students_def filter_keep filter_drop find_keep find_drop lower_eval

lemma find_none_all: "list_all (\<lambda>x. \<not> P x) xs \<Longrightarrow> List.find P xs = None"
  by (induction xs) auto

lemma at_most_one_match:
  "distinct (map f xs) \<Longrightarrow> length (filter (\<lambda>x. f x = a) xs) \<le> 1"
proof (induction xs)
  case Nil
  then show ?case by simp
next
  case (Cons x xs)
  show ?case
  proof (cases "f x = a")
    case True
    with Cons.prems have "a \<notin> f ` set xs" by simp
    then have "\<forall>y \<in> set xs. f y \<noteq> a" by blast
    then have "filter (\<lambda>y. f y = a) xs = []" by (simp add: filter_empty_conv)
    with True show ?thesis by simp
  next
    case False
    with Cons show ?thesis by simp
  qed
qed

lemma students_length: "length students = 40"
  by (simp add: students_def)

lemma students_ID_distinct: "distinct (map ID students)"
  by (simp add: students_def str_inject)

section \<open>The filters and the lookup on string arguments\<close>

lemma filterByCity_string:
  "filterByCity ucd records (JString c) =
   Inr (filter (\<lambda>r. toLowerCase ucd (city r) = toLowerCase ucd c) records)"
  unfolding filterByCity_def by (rule array_filter_total) (simp add: lower_equals_string)

lemma filterBySubject_string:
  "filterBySubject ucd records (JString s) =
   Inr (filter (\<lambda>r. toLowerCase ucd (studysubject r) = toLowerCase ucd s) records)"
  unfolding filterBySubject_def by (rule array_filter_total) (simp add: lower_equals_string)

lemma filterByGender_string:
  "filterByGender ucd records (JString g) =
   Inr (filter (\<lambda>r. toLowerCase ucd (gender r) = toLowerCase ucd g) records)"
  unfolding filterByGender_def by (rule array_filter_total) (simp add: lower_equals_string)

lemma name_matches_string:
  "name_matches ucd (JString n) r =
   Inr (toLowerCase ucd (firstname r) = toLowerCase ucd n \<or>
        toLowerCase ucd (lastname r) = toLowerCase ucd n)"
  by (simp add: name_matches_def lower_equals_string)

lemma filterByName_string:
  "filterByName ucd records (JString n) =
   Inr (filter (\<lambda>r. toLowerCase ucd (firstname r) = toLowerCase ucd n \<or>
                    toLowerCase ucd (lastname r) = toLowerCase ucd n) records)"
  unfolding filterByName_def by (rule array_filter_total) (simp add: name_matches_string)

lemma findById_find:
  "findById records v =
   Inr (case List.find (\<lambda>r. strict_equals (ID r) v) records of
          None \<Rightarrow> JNull | Some r \<Rightarrow> JObject r)"
proof -
  have "array_find (\<lambda>student. Inr (strict_equals (ID student) v)) records =
        Inr (case List.find (\<lambda>r. strict_equals (ID r) v) records of
               None \<Rightarrow> JUndefined | Some r \<Rightarrow> JObject r)"
    by (rule array_find_total) simp
  then show ?thesis
    by (simp add: findById_def logical_or_def split: option.split)
qed

lemma findById_string:
  "findById records (JString i) =
   Inr (case List.find (\<lambda>r. ID r = i) records of None \<Rightarrow> JNull | Some r \<Rightarrow> JObject r)"
  by (simp add: findById_find)

text \<open>
  The error branch is live: on an argument that is no string the first callback throws,
  unless the array is empty and no callback runs.
\<close>

lemma lower_equals_not_string:
  "\<forall>s. v \<noteq> JString s \<Longrightarrow> lower_equals ucd field v = Inl TypeError"
  by (cases v) (simp_all add: lower_equals_def)

lemma name_matches_not_string:
  "\<forall>s. v \<noteq> JString s \<Longrightarrow> name_matches ucd v r = Inl TypeError"
  by (simp add: name_matches_def lower_equals_not_string)

lemma filters_not_string:
  assumes "\<forall>s. v \<noteq> JString s"
  shows "filterByCity ucd records v = (if records = [] then Inr [] else Inl TypeError)"
    and "filterBySubject ucd records v = (if records = [] then Inr [] else Inl TypeError)"
    and "filterByGender ucd records v = (if records = [] then Inr [] else Inl TypeError)"
    and "filterByName ucd records v = (if records = [] then Inr [] else Inl TypeError)"
  unfolding filterByCity_def filterBySubject_def filterByGender_def filterByName_def
  by (rule array_filter_all_raise, simp add: lower_equals_not_string name_matches_not_string assms)+

lemma filterByCity_undefined:
  "filterByCity ucd (r # rs) JUndefined = Inl TypeError"
  "filterByCity ucd [] JUndefined = Inr []"
  by (simp_all add: filters_not_string)

section \<open>The store by subject and by gender\<close>

text \<open>
  The array literal lists the subjects in four blocks of ten records; within every block
  five records are \<open>male\<close> and five \<open>female\<close>.
\<close>

lemma by_subject:
  "filterBySubject ucd students (JString (str ''Physics'')) = Inr (take 10 students)"
  "filterBySubject ucd students (JString (str ''Mathematics'')) = Inr (take 10 (drop 10 students))"
  "filterBySubject ucd students (JString (str ''Computer Science''))
     = Inr (take 10 (drop 20 students))"
  "filterBySubject ucd students (JString (str ''Medicine'')) = Inr (drop 30 students)"
  by (simp_all add: filterBySubject_string store_eval
      del: filter.simps(2) filter_True filter_False)

lemma by_gender:
  "filterByGender ucd students (JString (str ''female''))
     = Inr (filter (\<lambda>r. gender r = str ''female'') students)"
  "filterByGender ucd students (JString (str ''male''))
     = Inr (filter (\<lambda>r. gender r = str ''male'') students)"
  unfolding filterByGender_string
  by (simp_all, (rule filter_cong_all, simp add: store_eval)+)

lemma gender_counts:
  "length (filter (\<lambda>r. gender r = str ''male'') (take 10 students)) = 5"
  "length (filter (\<lambda>r. gender r = str ''female'') (take 10 students)) = 5"
  "length (filter (\<lambda>r. gender r = str ''male'') (take 10 (drop 10 students))) = 5"
  "length (filter (\<lambda>r. gender r = str ''female'') (take 10 (drop 10 students))) = 5"
  "length (filter (\<lambda>r. gender r = str ''male'') (take 10 (drop 20 students))) = 5"
  "length (filter (\<lambda>r. gender r = str ''female'') (take 10 (drop 20 students))) = 5"
  "length (filter (\<lambda>r. gender r = str ''male'') (drop 30 students)) = 5"
  "length (filter (\<lambda>r. gender r = str ''female'') (drop 30 students)) = 5"
  "length (filter (\<lambda>r. gender r = str ''female'') students) = 20"
  "length (filter (\<lambda>r. gender r = str ''male'') students) = 20"
  by (simp_all add: store_eval del: filter.simps(2) filter_True filter_False)

section \<open>Running the model\<close>

text \<open>
  The definitions evaluated as they stand, index walk included, on the first records of
  the store and on a missing argument.
\<close>

lemma run_filterByCity:
  "filterByCity id (take 3 students) (JString (str ''VIENNA'')) = Inr [students ! 1]"
  by (simp add: filterByCity_def array_filter_def lower_equals_def students_def lower_eval)

lemma run_filterByGender_undefined:
  "filterByGender id students JUndefined = Inl TypeError"
  by (simp add: filterByGender_def array_filter_def lower_equals_def students_def)

lemma run_findById:
  "findById (take 5 students) (JString (str ''S003'')) = Inr (JObject (students ! 2))"
  "findById (take 5 students) (JString (str ''s003'')) = Inr JNull"
  "findById (take 5 students) JUndefined = Inr JNull"
  by (simp_all add: findById_def array_find_def logical_or_def students_def str_inject)

section \<open>The composition at the call site\<close>

lemma getStaticProps_root:
  "getStaticProps ucd None =
   Inr \<lparr>students_prop = students, gender_prop = JString (str ''All''),
        subject_prop = JString (str ''All'')\<rparr>"
  by (simp add: getStaticProps_def element_def and_then_def logical_or_def)

lemma getStaticProps_gender_subject:
  assumes "g \<noteq> []" and "s \<noteq> []"
  shows "getStaticProps ucd (Some [g, s]) =
         Inr \<lparr>students_prop =
                filter (\<lambda>r. toLowerCase ucd (gender r) = toLowerCase ucd g \<and>
                            toLowerCase ucd (studysubject r) = toLowerCase ucd s) students,
              gender_prop = JString g, subject_prop = JString s\<rparr>"
  using assms
  by (simp add: getStaticProps_def element_def and_then_def logical_or_def
      filterByGender_string filterBySubject_string)

section \<open>Properties of the filter and lookup layer\<close>

text \<open>
  C1. Filtering by gender and then by subject keeps exactly the records that match both
  arguments, each compared in lower case, in the order of the input; filtering by subject
  first gives the same sequence. On the store, \<open>male\<close> and then \<open>Medicine\<close> gives the
  records whose gender is \<open>male\<close> and whose subject is \<open>Medicine\<close>, in store order:
  S032, S034, S036, S038 and S040.
\<close>

theorem gender_then_subject_conjunctive:
  "and_then (filterByGender ucd records (JString g))
            (\<lambda>selected. filterBySubject ucd selected (JString s))
   = Inr (filter (\<lambda>r. toLowerCase ucd (gender r) = toLowerCase ucd g \<and>
                      toLowerCase ucd (studysubject r) = toLowerCase ucd s) records)
   \<and> and_then (filterBySubject ucd records (JString s))
               (\<lambda>selected. filterByGender ucd selected (JString g))
     = and_then (filterByGender ucd records (JString g))
                (\<lambda>selected. filterBySubject ucd selected (JString s))
   \<and> and_then (filterByGender ucd students (JString (str ''male'')))
               (\<lambda>selected. filterBySubject ucd selected (JString (str ''Medicine'')))
     = Inr (filter (\<lambda>r. gender r = str ''male'' \<and> studysubject r = str ''Medicine'') students)
   \<and> map ID (filter (\<lambda>r. gender r = str ''male'' \<and> studysubject r = str ''Medicine'') students)
     = map str [''S032'', ''S034'', ''S036'', ''S038'', ''S040'']"
proof (intro conjI)
  show gs: "and_then (filterByGender ucd records (JString g))
            (\<lambda>selected. filterBySubject ucd selected (JString s))
   = Inr (filter (\<lambda>r. toLowerCase ucd (gender r) = toLowerCase ucd g \<and>
                      toLowerCase ucd (studysubject r) = toLowerCase ucd s) records)"
    for records g s
    by (simp add: filterByGender_string filterBySubject_string and_then_def)
  have sg: "and_then (filterBySubject ucd records (JString s))
               (\<lambda>selected. filterByGender ucd selected (JString g))
     = Inr (filter (\<lambda>r. toLowerCase ucd (gender r) = toLowerCase ucd g \<and>
                      toLowerCase ucd (studysubject r) = toLowerCase ucd s) records)"
    by (auto simp add: filterByGender_string filterBySubject_string and_then_def
          intro!: filter_cong)
  show "and_then (filterBySubject ucd records (JString s))
               (\<lambda>selected. filterByGender ucd selected (JString g))
     = and_then (filterByGender ucd records (JString g))
                (\<lambda>selected. filterBySubject ucd selected (JString s))"
    by (simp only: gs sg)
  have "filter (\<lambda>r. toLowerCase ucd (gender r) = toLowerCase ucd (str ''male'') \<and>
                     toLowerCase ucd (studysubject r) = toLowerCase ucd (str ''Medicine'')) students
        = filter (\<lambda>r. gender r = str ''male'' \<and> studysubject r = str ''Medicine'') students"
    by (rule filter_cong_all) (simp add: store_eval)
  then show "and_then (filterByGender ucd students (JString (str ''male'')))
               (\<lambda>selected. filterBySubject ucd selected (JString (str ''Medicine'')))
     = Inr (filter (\<lambda>r. gender r = str ''male'' \<and> studysubject r = str ''Medicine'') students)"
    by (simp only: gs)
  show "map ID (filter (\<lambda>r. gender r = str ''male'' \<and> studysubject r = str ''Medicine'') students)
     = map str [''S032'', ''S034'', ''S036'', ''S038'', ''S040'']"
    by (simp add: store_eval del: filter.simps(2) filter_True filter_False)
qed

text \<open>
  C2. On a string argument \<^verbatim>\<open>filterByCity\<close> returns, without an exception, exactly
  the records whose city equals the argument once both are in lower case, in the order of
  the input; the result is empty on the empty array and when no record matches.
\<close>

theorem filterByCity_exact:
  "filterByCity ucd records (JString c)
     = Inr (filter (\<lambda>r. toLowerCase ucd (city r) = toLowerCase ucd c) records)
   \<and> filterByCity ucd [] (JString c) = Inr []
   \<and> ((\<forall>r \<in> set records. toLowerCase ucd (city r) \<noteq> toLowerCase ucd c)
        \<longrightarrow> filterByCity ucd records (JString c) = Inr [])"
  by (simp add: filterByCity_string)

theorem filterByCity_exact_witness:
  "list_all (\<lambda>r. toLowerCase id (city r) \<noteq> toLowerCase id (str ''Berlin'')) students
   \<and> filterByCity id students (JString (str ''Berlin'')) = Inr []
   \<and> filterByCity id students (JString (str ''PRAGUE''))
       = Inr (filter (\<lambda>r. city r = str ''Prague'') students)"
proof -
  have none: "list_all (\<lambda>r. toLowerCase id (city r) \<noteq> toLowerCase id (str ''Berlin'')) students"
    by (simp add: store_eval)
  then have hyp: "\<forall>r \<in> set students. toLowerCase id (city r) \<noteq> toLowerCase id (str ''Berlin'')"
    by (simp only: list_all_iff)
  have same: "filter (\<lambda>r. toLowerCase id (city r) = toLowerCase id (str ''PRAGUE'')) students
              = filter (\<lambda>r. city r = str ''Prague'') students"
    by (rule filter_cong_all) (simp add: store_eval)
  note inst = filterByCity_exact [of id students]
  have empty: "filterByCity id students (JString (str ''Berlin'')) = Inr []"
    by (rule mp [OF conjunct2 [OF conjunct2 [OF inst]] hyp])
  have prague: "filterByCity id students (JString (str ''PRAGUE''))
       = Inr (filter (\<lambda>r. city r = str ''Prague'') students)"
    by (simp only: conjunct1 [OF inst] same)
  from none empty prague show ?thesis by (intro conjI)
qed

text \<open>
  C3. On a string argument \<^verbatim>\<open>findById\<close> returns the first record of the array
  whose \<^verbatim>\<open>ID\<close> is the argument, code unit for code unit, and \<^verbatim>\<open>null\<close> when there
  is none; whatever the argument, it throws no exception and never returns
  \<^verbatim>\<open>undefined\<close>. On the store \<open>S003\<close> finds the third record and \<open>s003\<close>, in
  lower case, finds none.
\<close>

theorem findById_first_match:
  "findById records (JString i)
     = Inr (case List.find (\<lambda>r. ID r = i) records of None \<Rightarrow> JNull | Some r \<Rightarrow> JObject r)
   \<and> (findById records (JString i) = Inr JNull \<longleftrightarrow> (\<forall>r \<in> set records. ID r \<noteq> i))
   \<and> (findById records (JString i) = Inr (JObject r) \<longleftrightarrow>
        (\<exists>k < length records. records ! k = r \<and> ID r = i \<and> (\<forall>j < k. ID (records ! j) \<noteq> i)))
   \<and> findById records v \<noteq> Inl e
   \<and> findById records v \<noteq> Inr JUndefined"
proof (intro conjI)
  show "findById records (JString i)
     = Inr (case List.find (\<lambda>r. ID r = i) records of None \<Rightarrow> JNull | Some r \<Rightarrow> JObject r)"
    by (rule findById_string)
  show "findById records (JString i) = Inr JNull \<longleftrightarrow> (\<forall>r \<in> set records. ID r \<noteq> i)"
  proof (cases "List.find (\<lambda>r. ID r = i) records")
    case None
    then show ?thesis
      by (simp add: findById_string) (simp add: find_None_iff)
  next
    case (Some r)
    then have "r \<in> set records \<and> ID r = i"
      by (auto simp add: find_Some_iff)
    with Some show ?thesis
      by (auto simp add: findById_string)
  qed
  show "findById records (JString i) = Inr (JObject r) \<longleftrightarrow>
        (\<exists>k < length records. records ! k = r \<and> ID r = i \<and> (\<forall>j < k. ID (records ! j) \<noteq> i))"
  proof -
    have "findById records (JString i) = Inr (JObject r) \<longleftrightarrow>
          List.find (\<lambda>r. ID r = i) records = Some r"
      by (simp add: findById_string split: option.splits)
    also have "\<dots> \<longleftrightarrow>
        (\<exists>k < length records. records ! k = r \<and> ID r = i \<and> (\<forall>j < k. ID (records ! j) \<noteq> i))"
      by (auto simp add: find_Some_iff)
    finally show ?thesis .
  qed
  show "findById records v \<noteq> Inl e"
    by (simp add: findById_find)
  show "findById records v \<noteq> Inr JUndefined"
    by (simp add: findById_find split: option.splits)
qed

theorem findById_first_match_witness:
  "findById students (JString (str ''S003'')) = Inr (JObject (students ! 2))
   \<and> (\<exists>k < length students. students ! k = students ! 2 \<and> ID (students ! 2) = str ''S003''
         \<and> (\<forall>j < k. ID (students ! j) \<noteq> str ''S003''))
   \<and> list_all (\<lambda>r. ID r \<noteq> str ''s003'') students
   \<and> findById students (JString (str ''s003'')) = Inr JNull"
proof -
  have found: "findById students (JString (str ''S003'')) = Inr (JObject (students ! 2))"
    by (simp add: findById_string store_eval del: find.simps)
  have none: "list_all (\<lambda>r. ID r \<noteq> str ''s003'') students"
    by (simp add: students_def str_inject)
  then have hyp: "\<forall>r \<in> set students. ID r \<noteq> str ''s003''"
    by (simp only: list_all_iff)
  note at_S003 = findById_first_match [of students "str ''S003''" "students ! 2"]
  note at_lower = findById_first_match [of students "str ''s003''"]
  have first: "\<exists>k < length students. students ! k = students ! 2
           \<and> ID (students ! 2) = str ''S003'' \<and> (\<forall>j < k. ID (students ! j) \<noteq> str ''S003'')"
    by (rule iffD1 [OF conjunct1 [OF conjunct2 [OF conjunct2 [OF at_S003]]] found])
  have absent: "findById students (JString (str ''s003'')) = Inr JNull"
    by (rule iffD2 [OF conjunct1 [OF conjunct2 [OF at_lower]] hyp])
  from found first none absent show ?thesis by (intro conjI)
qed

text \<open>
  C4. On a string argument each of the four filters returns a subsequence of its input:
  every record of the result is a record of the input, and the records of the result
  stand in the order they have in the input. On any argument whatever a filter either
  returns such a subsequence or throws a TypeError, the latter only on a non-empty array
  and an argument that is no string.
\<close>

theorem filters_select_subsequence:
  "(\<exists>ys. filterByCity ucd records (JString a) = Inr ys
          \<and> subseq ys records \<and> set ys \<subseteq> set records)
   \<and> (\<exists>ys. filterBySubject ucd records (JString a) = Inr ys
          \<and> subseq ys records \<and> set ys \<subseteq> set records)
   \<and> (\<exists>ys. filterByGender ucd records (JString a) = Inr ys
          \<and> subseq ys records \<and> set ys \<subseteq> set records)
   \<and> (\<exists>ys. filterByName ucd records (JString a) = Inr ys
          \<and> subseq ys records \<and> set ys \<subseteq> set records)
   \<and> (case filterByCity ucd records v of
        Inl e \<Rightarrow> e = TypeError \<and> records \<noteq> [] \<and> (\<forall>s. v \<noteq> JString s)
      | Inr ys \<Rightarrow> subseq ys records \<and> set ys \<subseteq> set records)
   \<and> (case filterBySubject ucd records v of
        Inl e \<Rightarrow> e = TypeError \<and> records \<noteq> [] \<and> (\<forall>s. v \<noteq> JString s)
      | Inr ys \<Rightarrow> subseq ys records \<and> set ys \<subseteq> set records)
   \<and> (case filterByGender ucd records v of
        Inl e \<Rightarrow> e = TypeError \<and> records \<noteq> [] \<and> (\<forall>s. v \<noteq> JString s)
      | Inr ys \<Rightarrow> subseq ys records \<and> set ys \<subseteq> set records)
   \<and> (case filterByName ucd records v of
        Inl e \<Rightarrow> e = TypeError \<and> records \<noteq> [] \<and> (\<forall>s. v \<noteq> JString s)
      | Inr ys \<Rightarrow> subseq ys records \<and> set ys \<subseteq> set records)"
proof (cases "\<exists>s. v = JString s")
  case True
  then obtain s where "v = JString s" ..
  then show ?thesis
    by (simp add: filterByCity_string filterBySubject_string filterByGender_string
        filterByName_string)
next
  case False
  then have no: "\<forall>s. v \<noteq> JString s" by simp
  show ?thesis
    by (simp add: filters_not_string [OF no] no filterByCity_string filterBySubject_string
        filterByGender_string filterByName_string)
qed

text \<open>
  C5. On a string argument \<^verbatim>\<open>filterByName\<close> returns exactly the records whose
  first name or whose last name equals the argument once both are in lower case, the whole
  string compared. On the store, \<open>anna\<close> finds S001 by her first name and \<open>WEBER\<close>
  finds S003 and S030 by their last name; the prefix \<open>Ann\<close> and the full name
  \<open>Anna Schmidt\<close> find nobody.
\<close>

theorem filterByName_exact:
  "filterByName ucd records (JString n)
     = Inr (filter (\<lambda>r. toLowerCase ucd (firstname r) = toLowerCase ucd n \<or>
                        toLowerCase ucd (lastname r) = toLowerCase ucd n) records)
   \<and> filterByName ucd students (JString (str ''anna''))
       = Inr (filter (\<lambda>r. ID r = str ''S001'') students)
   \<and> filterByName ucd students (JString (str ''WEBER''))
       = Inr (filter (\<lambda>r. ID r = str ''S003'' \<or> ID r = str ''S030'') students)
   \<and> filterByName ucd students (JString (str ''Ann'')) = Inr []
   \<and> filterByName ucd students (JString (str ''Anna Schmidt'')) = Inr []"
proof (intro conjI)
  show "filterByName ucd records (JString n)
     = Inr (filter (\<lambda>r. toLowerCase ucd (firstname r) = toLowerCase ucd n \<or>
                        toLowerCase ucd (lastname r) = toLowerCase ucd n) records)"
    by (rule filterByName_string)
  have "filter (\<lambda>r. toLowerCase ucd (firstname r) = toLowerCase ucd (str ''anna'') \<or>
                     toLowerCase ucd (lastname r) = toLowerCase ucd (str ''anna'')) students
        = filter (\<lambda>r. ID r = str ''S001'') students"
    by (rule filter_cong_all) (simp add: store_eval)
  then show "filterByName ucd students (JString (str ''anna''))
       = Inr (filter (\<lambda>r. ID r = str ''S001'') students)"
    by (simp only: filterByName_string)
  have "filter (\<lambda>r. toLowerCase ucd (firstname r) = toLowerCase ucd (str ''WEBER'') \<or>
                     toLowerCase ucd (lastname r) = toLowerCase ucd (str ''WEBER'')) students
        = filter (\<lambda>r. ID r = str ''S003'' \<or> ID r = str ''S030'') students"
    by (rule filter_cong_all) (simp add: store_eval)
  then show "filterByName ucd students (JString (str ''WEBER''))
       = Inr (filter (\<lambda>r. ID r = str ''S003'' \<or> ID r = str ''S030'') students)"
    by (simp only: filterByName_string)
  have "filter (\<lambda>r. toLowerCase ucd (firstname r) = toLowerCase ucd (str ''Ann'') \<or>
                     toLowerCase ucd (lastname r) = toLowerCase ucd (str ''Ann'')) students
        = filter (\<lambda>r. False) students"
    by (rule filter_cong_all) (simp add: store_eval)
  then show "filterByName ucd students (JString (str ''Ann'')) = Inr []"
    by (simp add: filterByName_string)
  have "filter (\<lambda>r. toLowerCase ucd (firstname r) = toLowerCase ucd (str ''Anna Schmidt'') \<or>
                     toLowerCase ucd (lastname r) = toLowerCase ucd (str ''Anna Schmidt'')) students
        = filter (\<lambda>r. False) students"
    by (rule filter_cong_all) (simp add: store_eval)
  then show "filterByName ucd students (JString (str ''Anna Schmidt'')) = Inr []"
    by (simp add: filterByName_string)
qed

text \<open>
  C6, as stated, fails. No record of the store has the city field \<open>munich\<close>, yet
  \<^verbatim>\<open>filterByCity\<close> on \<open>munich\<close> returns the seven records of \<open>Munich\<close>:
  S001, S007, S013, S019, S025, S031 and S037.
\<close>

theorem filterByCity_exact_spelling_counterexample:
  "str ''munich'' \<notin> set (map city students)
   \<and> filterByCity id students (JString (str ''munich''))
       = Inr [students ! 0, students ! 6, students ! 12, students ! 18, students ! 24,
              students ! 30, students ! 36]"
proof (intro conjI)
  show "str ''munich'' \<notin> set (map city students)"
    by (simp add: students_def str_inject)
  show "filterByCity id students (JString (str ''munich''))
       = Inr [students ! 0, students ! 6, students ! 12, students ! 18, students ! 24,
              students ! 30, students ! 36]"
    by (simp add: filterByCity_string store_eval del: filter.simps(2) filter_True filter_False)
qed

text \<open>
  C6, amended. For every string that equals the city of no record of the store once both
  are in lower case, that is, whose lower case is none of \<open>munich\<close>, \<open>vienna\<close>,
  \<open>prague\<close>, \<open>madrid\<close>, \<open>paris\<close>, \<open>rome\<close>, \<^verbatim>\<open>filterByCity\<close> on the store
  returns the empty array.
\<close>

theorem filterByCity_absent_city:
  "((\<forall>r \<in> set students. toLowerCase ucd (city r) \<noteq> toLowerCase ucd c)
      \<longrightarrow> filterByCity ucd students (JString c) = Inr [])
   \<and> (toLowerCase ucd c \<notin> set (map str [''munich'', ''vienna'', ''prague'', ''madrid'',
                                              ''paris'', ''rome''])
      \<longrightarrow> filterByCity ucd students (JString c) = Inr [])"
proof (intro conjI impI)
  assume "\<forall>r \<in> set students. toLowerCase ucd (city r) \<noteq> toLowerCase ucd c"
  then show "filterByCity ucd students (JString c) = Inr []"
    by (simp add: filterByCity_string)
next
  assume absent: "toLowerCase ucd c \<notin> set (map str [''munich'', ''vienna'', ''prague'',
                     ''madrid'', ''paris'', ''rome''])"
  have "list_all (\<lambda>r. toLowerCase ucd (city r) \<in> set (map str [''munich'', ''vienna'',
                     ''prague'', ''madrid'', ''paris'', ''rome''])) students"
    by (simp add: store_eval)
  then have "\<forall>r \<in> set students. toLowerCase ucd (city r) \<noteq> toLowerCase ucd c"
    using absent by (simp only: list_all_iff) metis
  then show "filterByCity ucd students (JString c) = Inr []"
    by (simp add: filterByCity_string)
qed

theorem filterByCity_absent_city_witness:
  "list_all (\<lambda>r. toLowerCase id (city r) \<noteq> toLowerCase id (str ''London'')) students
   \<and> toLowerCase id (str ''London'') \<notin> set (map str [''munich'', ''vienna'', ''prague'',
                                                       ''madrid'', ''paris'', ''rome''])
   \<and> filterByCity id students (JString (str ''London'')) = Inr []"
proof -
  have none: "list_all (\<lambda>r. toLowerCase id (city r) \<noteq> toLowerCase id (str ''London'')) students"
    by (simp add: store_eval)
  then have hyp: "\<forall>r \<in> set students. toLowerCase id (city r) \<noteq> toLowerCase id (str ''London'')"
    by (simp only: list_all_iff)
  have other: "toLowerCase id (str ''London'') \<notin> set (map str [''munich'', ''vienna'',
                  ''prague'', ''madrid'', ''paris'', ''rome''])"
    by (simp add: lower_eval)
  note inst = filterByCity_absent_city [of id "str ''London''"]
  have empty: "filterByCity id students (JString (str ''London'')) = Inr []"
    by (rule mp [OF conjunct1 [OF inst] hyp])
  moreover have "filterByCity id students (JString (str ''London'')) = Inr []"
    by (rule mp [OF conjunct2 [OF inst] other])
  ultimately show ?thesis using none other by (intro conjI)
qed

text \<open>
  C7. \<^verbatim>\<open>filterBySubject\<close> is idempotent: filtering its result again by the same
  string returns the same sequence. On the store with \<open>Physics\<close> both are the first ten
  records. The same holds for an argument that is no string, where both sides throw or
  both are empty.
\<close>

theorem filterBySubject_idempotent:
  "and_then (filterBySubject ucd records (JString s))
            (\<lambda>once. filterBySubject ucd once (JString s))
     = filterBySubject ucd records (JString s)
   \<and> and_then (filterBySubject ucd students (JString (str ''Physics'')))
               (\<lambda>once. filterBySubject ucd once (JString (str ''Physics'')))
     = filterBySubject ucd students (JString (str ''Physics''))
   \<and> filterBySubject ucd students (JString (str ''Physics'')) = Inr (take 10 students)
   \<and> and_then (filterBySubject ucd records v) (\<lambda>once. filterBySubject ucd once v)
     = filterBySubject ucd records v"
proof (intro conjI)
  show twice: "and_then (filterBySubject ucd records (JString s))
            (\<lambda>once. filterBySubject ucd once (JString s))
     = filterBySubject ucd records (JString s)" for records s
    by (simp add: filterBySubject_string and_then_def)
  show "and_then (filterBySubject ucd students (JString (str ''Physics'')))
               (\<lambda>once. filterBySubject ucd once (JString (str ''Physics'')))
     = filterBySubject ucd students (JString (str ''Physics''))"
    by (rule twice)
  show "filterBySubject ucd students (JString (str ''Physics'')) = Inr (take 10 students)"
    by (rule by_subject)
  show "and_then (filterBySubject ucd records v) (\<lambda>once. filterBySubject ucd once v)
     = filterBySubject ucd records v"
  proof (cases "\<exists>s. v = JString s")
    case True
    then obtain s where "v = JString s" ..
    then show ?thesis
      by (simp only: twice)
  next
    case False
    then have no: "\<forall>s. v \<noteq> JString s" by simp
    show ?thesis
      by (simp add: filters_not_string [OF no] and_then_def)
  qed
qed

text \<open>
  C8. The store has forty records with pairwise different \<^verbatim>\<open>ID\<close>s: records at two
  different positions differ in their \<^verbatim>\<open>ID\<close>, so at most one record of the store
  matches any given identifier.
\<close>

theorem students_ID_unique:
  "length students = 40
   \<and> distinct (map ID students)
   \<and> (\<forall>i < length students. \<forall>j < length students.
         i \<noteq> j \<longrightarrow> ID (students ! i) \<noteq> ID (students ! j))
   \<and> length (filter (\<lambda>r. ID r = a) students) \<le> 1"
proof (intro conjI)
  show "length students = 40"
    by (rule students_length)
  show "distinct (map ID students)"
    by (rule students_ID_distinct)
  show "\<forall>i < length students. \<forall>j < length students.
         i \<noteq> j \<longrightarrow> ID (students ! i) \<noteq> ID (students ! j)"
    using students_ID_distinct by (simp add: distinct_conv_nth)
  show "length (filter (\<lambda>r. ID r = a) students) \<le> 1"
    using students_ID_distinct by (rule at_most_one_match)
qed

theorem students_ID_unique_witness:
  "(0::nat) < length students \<and> (39::nat) < length students \<and> (0::nat) \<noteq> 39
   \<and> ID (students ! 0) \<noteq> ID (students ! 39)"
proof -
  have len: "length students = 40"
    by (rule conjunct1 [OF students_ID_unique [of "[]"]])
  have first: "(0::nat) < length students" and last: "(39::nat) < length students"
    by (simp_all add: len)
  have pairs: "\<forall>i < length students. \<forall>j < length students.
         i \<noteq> j \<longrightarrow> ID (students ! i) \<noteq> ID (students ! j)"
    by (rule conjunct1 [OF conjunct2 [OF conjunct2 [OF students_ID_unique [of "[]"]]]])
  have differ: "ID (students ! 0) \<noteq> ID (students ! 39)"
    using pairs first last by (metis zero_neq_numeral)
  from first last differ show ?thesis by simp
qed

text \<open>
  C9. On the store \<^verbatim>\<open>findById\<close> returns the record of Anna Schmidt for \<open>S001\<close>
  and \<^verbatim>\<open>null\<close> for \<open>S999\<close>.
\<close>

theorem findById_S001_S999:
  "findById students (JString (str ''S001''))
     = Inr (JObject \<lparr>ID = str ''S001'', firstname = str ''Anna'', lastname = str ''Schmidt'',
                     gender = str ''female'', birthdate = str ''1998-03-15'',
                     studysubject = str ''Physics'', city = str ''Munich''\<rparr>)
   \<and> findById students (JString (str ''S999'')) = Inr JNull"
proof (intro conjI)
  show "findById students (JString (str ''S001''))
     = Inr (JObject \<lparr>ID = str ''S001'', firstname = str ''Anna'', lastname = str ''Schmidt'',
                     gender = str ''female'', birthdate = str ''1998-03-15'',
                     studysubject = str ''Physics'', city = str ''Munich''\<rparr>)"
    by (simp add: findById_string store_eval del: find.simps(2))
  have "list_all (\<lambda>r. \<not> ID r = str ''S999'') students"
    by (simp add: students_def str_inject)
  then have "List.find (\<lambda>r. ID r = str ''S999'') students = None"
    by (rule find_none_all)
  then show "findById students (JString (str ''S999'')) = Inr JNull"
    by (simp add: findById_string)
qed

text \<open>
  C10. The store has forty records. For each of the subjects \<open>Physics\<close>,
  \<open>Mathematics\<close>, \<open>Computer Science\<close> and \<open>Medicine\<close>, \<^verbatim>\<open>filterBySubject\<close>
  returns ten records (one block of the literal), five of them with gender \<open>male\<close> and
  five with gender \<open>female\<close>; \<^verbatim>\<open>filterByGender\<close> returns twenty records for
  \<open>female\<close> and twenty for \<open>male\<close>.
\<close>

theorem store_composition:
  "length students = 40
   \<and> (\<exists>ys. filterBySubject ucd students (JString (str ''Physics'')) = Inr ys
          \<and> ys = take 10 students \<and> length ys = 10
          \<and> length (filter (\<lambda>r. gender r = str ''male'') ys) = 5
          \<and> length (filter (\<lambda>r. gender r = str ''female'') ys) = 5)
   \<and> (\<exists>ys. filterBySubject ucd students (JString (str ''Mathematics'')) = Inr ys
          \<and> ys = take 10 (drop 10 students) \<and> length ys = 10
          \<and> length (filter (\<lambda>r. gender r = str ''male'') ys) = 5
          \<and> length (filter (\<lambda>r. gender r = str ''female'') ys) = 5)
   \<and> (\<exists>ys. filterBySubject ucd students (JString (str ''Computer Science'')) = Inr ys
          \<and> ys = take 10 (drop 20 students) \<and> length ys = 10
          \<and> length (filter (\<lambda>r. gender r = str ''male'') ys) = 5
          \<and> length (filter (\<lambda>r. gender r = str ''female'') ys) = 5)
   \<and> (\<exists>ys. filterBySubject ucd students (JString (str ''Medicine'')) = Inr ys
          \<and> ys = drop 30 students \<and> length ys = 10
          \<and> length (filter (\<lambda>r. gender r = str ''male'') ys) = 5
          \<and> length (filter (\<lambda>r. gender r = str ''female'') ys) = 5)
   \<and> (\<exists>ys. filterByGender ucd students (JString (str ''female'')) = Inr ys \<and> length ys = 20)
   \<and> (\<exists>ys. filterByGender ucd students (JString (str ''male'')) = Inr ys \<and> length ys = 20)"
  by (simp add: students_length by_subject by_gender gender_counts)

end
